theory Spec2Isabelle
  imports Main "HOL-Library.Word" "HOL-Library.Mapping"
begin

unbundle bit_operations_syntax

section \<open>Data model (main.go, route.go)\<close>

type_synonym byte = "8 word"
type_synonym uint16 = "16 word"

text \<open>\<^verbatim>\<open>type tlsRecordType byte\<close>, with the named constants of main.go.\<close>

type_synonym tlsRecordType = byte

definition ChangeCipher :: tlsRecordType where "ChangeCipher = 0x14"
definition Alert :: tlsRecordType where "Alert = 0x15"
definition Handshake :: tlsRecordType where "Handshake = 0x16"
definition Application :: tlsRecordType where "Application = 0x17"
definition Heartbear :: tlsRecordType where "Heartbear = 0x18"

text \<open>
  \<^verbatim>\<open>type tlsRecord struct { Remote net.Addr; Type tlsRecordType; Version []byte;
  Length uint16; Data []byte }\<close>. The remote address is an opaque name; \<open>None\<close>
  is the nil interface value that \<^verbatim>\<open>readTLSRecord\<close> leaves in the field.
\<close>

record tlsRecord =
  Remote :: "string option"
  Type :: tlsRecordType
  Version :: "byte list"
  Length :: uint16
  Data :: "byte list"

text \<open>Errors that the functions of the program return as values.\<close>

datatype error =
    EOF
  | UnknownRecordType byte
  | ArgsWrong
  | NoSuchRoute
  | NoRecord
  | UnknownCommand
  | LookupFailed
  | IPNotFound
  | AtoiFailed

section \<open>Record codec (main.go)\<close>

text \<open>\<^verbatim>\<open>binary.BigEndian.PutUint16\<close> and \<^verbatim>\<open>binary.BigEndian.Uint16\<close>.\<close>

definition PutUint16 :: "uint16 \<Rightarrow> byte list" where
  "PutUint16 v = [ucast (drop_bit 8 v), ucast v]"

definition Uint16 :: "byte list \<Rightarrow> uint16" where
  "Uint16 b = (ucast (b ! 1)) OR (push_bit 8 (ucast (b ! 0)))"

text \<open>
  \<^verbatim>\<open>func (r *tlsRecord) toBytes() []byte\<close>: the type byte, the version bytes, the
  stored \<^verbatim>\<open>r.Length\<close> in big-endian order, and the data.
\<close>

definition toBytes :: "tlsRecord \<Rightarrow> byte list" where
  "toBytes r = [Type r] @ Version r @ PutUint16 (Length r) @ Data r"

text \<open>
  The connection that \<^verbatim>\<open>readTLSRecord\<close> reads from is a list of pending chunks, in
  arrival order. One \<^verbatim>\<open>conn.Read(p)\<close> with \<open>len(p) = n\<close> returns bytes of the first
  pending chunk only, at most \<open>n\<close> of them, and leaves the rest of that chunk pending;
  with nothing pending the stream has ended and the read returns \<^verbatim>\<open>io.EOF\<close>.
\<close>

type_synonym conn = "byte list list"

fun conn_Read :: "nat \<Rightarrow> conn \<Rightarrow> error + (byte list \<times> conn)" where
  "conn_Read n [] = Inl EOF"
| "conn_Read n (c # cs) =
     (if length c \<le> n then Inr (c, cs) else Inr (take n c, drop n c # cs))"

text \<open>
  The loop of \<^verbatim>\<open>readTLSRecord\<close> that fills \<^verbatim>\<open>buf[l:r]\<close>, in pieces of at most 512
  bytes, until \<open>l\<close> reaches the record length \<open>n\<close>. A short read advances \<open>l\<close> by the
  bytes read and goes round again.
\<close>

function read_payload :: "conn \<Rightarrow> byte list \<Rightarrow> nat \<Rightarrow> nat \<Rightarrow> error + (byte list \<times> conn)" where
  "read_payload cn buf l n =
     (if l < n then
        (let r = (if l + 512 < n then l + 512 else n) in
         case conn_Read (r - l) cn of
           Inl e \<Rightarrow> Inl e
         | Inr (d, cn') \<Rightarrow>
             (let nread = length d;
                  buf' = take l buf @ d @ drop (l + nread) buf
              in if nread \<noteq> r - l then read_payload cn' buf' (l + nread) n
                 else read_payload cn' buf' r n))
      else Inr (buf, cn))"
  by pat_completeness auto
termination
proof (relation "measure (\<lambda>(cn, buf, l, n). (n - l) + length cn)", goal_cases)
  case 1
  show ?case by simp
next
  case (2 cn buf l n r x2 d cn' nread buf')
  then show ?case
    by (cases cn) (auto split: if_splits)
next
  case (3 cn buf l n r x2 d cn' nread buf')
  then show ?case
    by (cases cn) (auto split: if_splits)
qed

text \<open>
  \<^verbatim>\<open>func readTLSRecord(conn io.ReadWriter) (*tlsRecord, error)\<close>. The header buffer has
  five zero bytes; a single \<^verbatim>\<open>conn.Read(buf)\<close> overwrites its first bytes with what the
  read returned (the count is discarded by the source). The result carries the
  connection's remaining chunks.
\<close>

definition readTLSRecord :: "conn \<Rightarrow> error + (tlsRecord \<times> conn)" where
  "readTLSRecord cn =
     (case conn_Read 5 cn of
        Inl e \<Rightarrow> Inl e
      | Inr (d, cn1) \<Rightarrow>
          (let buf = d @ replicate (5 - length d) (0 :: byte);
               recordType = buf ! 0
           in if recordType < 0x14 \<or> recordType > 0x18 then Inl (UnknownRecordType (buf ! 0))
              else
                (let version = take 2 (drop 1 buf);
                     recordLength = Uint16 (take 2 (drop 3 buf))
                 in case read_payload cn1 (replicate (unat recordLength) 0) 0 (unat recordLength) of
                      Inl e \<Rightarrow> Inl e
                    | Inr (buf', cn2) \<Rightarrow>
                        Inr (\<lparr>Remote = None, Type = recordType, Version = version,
                              Length = recordLength, Data = buf'\<rparr>, cn2))))"

section \<open>Operator commands (main.go)\<close>

datatype commandtype =
    breakType
  | addRoute
  | removeRoute
  | listRoute
  | setDefaultRoute
  | forwardRecord
  | dropRecord
  | quitProgram
  | continueType
  | unknown

record command =
  cmd :: commandtype
  args :: "string list"

text \<open>\<^verbatim>\<open>func getCommandType(c byte) commandtype\<close>, case by case in the source's order.\<close>

definition getCommandType :: "char \<Rightarrow> commandtype" where
  "getCommandType c =
     (if c = CHR ''b'' then breakType
      else if c = CHR ''a'' then addRoute
      else if c = CHR ''l'' then listRoute
      else if c = CHR ''s'' then setDefaultRoute
      else if c = CHR ''f'' then forwardRecord
      else if c = CHR ''d'' then dropRecord
      else if c = CHR ''q'' then quitProgram
      else if c = CHR ''c'' then continueType
      else unknown)"

text \<open>
  \<^verbatim>\<open>strings.TrimSpace\<close> strips from both ends every rune for which \<^verbatim>\<open>unicode.IsSpace\<close>
  holds: tab, line feed, vertical tab, form feed, carriage return, space, U+0085, U+00A0,
  U+1680, U+2000 to U+200A, U+2028, U+2029, U+202F, U+205F and U+3000. A Go string holds
  bytes, so each of them is listed here by its UTF-8 encoding.
\<close>

definition spaceRunes :: "string list" where
  "spaceRunes =
     [[CHR 0x09], [CHR 0x0A], [CHR 0x0B], [CHR 0x0C], [CHR 0x0D], [CHR 0x20],
      [CHR 0xC2, CHR 0x85], [CHR 0xC2, CHR 0xA0],
      [CHR 0xE1, CHR 0x9A, CHR 0x80],
      [CHR 0xE2, CHR 0x80, CHR 0x80], [CHR 0xE2, CHR 0x80, CHR 0x81], [CHR 0xE2, CHR 0x80, CHR 0x82],
      [CHR 0xE2, CHR 0x80, CHR 0x83], [CHR 0xE2, CHR 0x80, CHR 0x84], [CHR 0xE2, CHR 0x80, CHR 0x85],
      [CHR 0xE2, CHR 0x80, CHR 0x86], [CHR 0xE2, CHR 0x80, CHR 0x87], [CHR 0xE2, CHR 0x80, CHR 0x88],
      [CHR 0xE2, CHR 0x80, CHR 0x89], [CHR 0xE2, CHR 0x80, CHR 0x8A],
      [CHR 0xE2, CHR 0x80, CHR 0xA8], [CHR 0xE2, CHR 0x80, CHR 0xA9], [CHR 0xE2, CHR 0x80, CHR 0xAF],
      [CHR 0xE2, CHR 0x81, CHR 0x9F],
      [CHR 0xE3, CHR 0x80, CHR 0x80]]"

text \<open>The number of bytes of the space rune that a string starts with, or ends with; 0 when there is none.\<close>

definition spacePrefix :: "string \<Rightarrow> nat" where
  "spacePrefix s =
     (case filter (\<lambda>e. take (length e) s = e) spaceRunes of [] \<Rightarrow> 0 | e # es \<Rightarrow> length e)"

definition spaceSuffix :: "string \<Rightarrow> nat" where
  "spaceSuffix s =
     (case filter (\<lambda>e. length e \<le> length s \<and> drop (length s - length e) s = e) spaceRunes of
        [] \<Rightarrow> 0
      | e # es \<Rightarrow> length e)"

text \<open>\<^verbatim>\<open>strings.TrimLeftFunc\<close> and \<^verbatim>\<open>strings.TrimRightFunc\<close> with \<^verbatim>\<open>unicode.IsSpace\<close>.\<close>

function trimLeft :: "string \<Rightarrow> string" where
  "trimLeft s = (if spacePrefix s = 0 then s else trimLeft (drop (spacePrefix s) s))"
  by pat_completeness auto
termination
proof (relation "measure length", goal_cases)
  case 1
  show ?case by simp
next
  case (2 s)
  then have "s \<noteq> []" by (auto simp add: spacePrefix_def spaceRunes_def)
  with 2 show ?case by simp
qed

function trimRight :: "string \<Rightarrow> string" where
  "trimRight s = (if spaceSuffix s = 0 then s else trimRight (take (length s - spaceSuffix s) s))"
  by pat_completeness auto
termination
proof (relation "measure length", goal_cases)
  case 1
  show ?case by simp
next
  case (2 s)
  then have "s \<noteq> []" by (auto simp add: spaceSuffix_def spaceRunes_def)
  with 2 show ?case by simp
qed

definition TrimSpace :: "string \<Rightarrow> string" where
  "TrimSpace s = trimRight (trimLeft s)"

text \<open>\<^verbatim>\<open>strings.Split(line, " ")\<close>: the pieces between single spaces, one more than there are spaces.\<close>

fun Split :: "string \<Rightarrow> string list" where
  "Split [] = [[]]"
| "Split (c # cs) =
     (if c = CHR '' '' then [] # Split cs
      else (case Split cs of [] \<Rightarrow> [[c]] | t # ts \<Rightarrow> (c # t) # ts))"

text \<open>
  \<^verbatim>\<open>func getNextCommand(scanner *bufio.Scanner) *command\<close>, as a function of the line the
  scanner returns; \<open>None\<close> is the nil command that the caller reports as wrong syntax.
\<close>

definition getNextCommand :: "string \<Rightarrow> command option" where
  "getNextCommand scanned =
     (let line = TrimSpace scanned;
          tks = map TrimSpace (Split line)
      in if length tks = 0 \<or> length (tks ! 0) \<noteq> 1 \<or> getCommandType (tks ! 0 ! 0) = unknown
         then None
         else Some \<lparr>cmd = getCommandType (tks ! 0 ! 0), args = drop 1 tks\<rparr>)"

text \<open>
  \<^verbatim>\<open>strconv.Atoi\<close>: an optional sign and at least one decimal digit, within the range
  of a 64-bit \<^verbatim>\<open>int\<close>; everything else is an error (\<open>None\<close>).
\<close>

definition isDigit :: "char \<Rightarrow> bool" where
  "isDigit c = (48 \<le> (of_char c :: nat) \<and> (of_char c :: nat) \<le> 57)"

definition digitsValue :: "string \<Rightarrow> int" where
  "digitsValue ds = foldl (\<lambda>n c. 10 * n + (int (of_char c) - 48)) 0 ds"

definition Atoi :: "string \<Rightarrow> int option" where
  "Atoi s =
     (let neg = (s \<noteq> [] \<and> hd s = CHR ''-'');
          ds = (if s \<noteq> [] \<and> (hd s = CHR ''-'' \<or> hd s = CHR ''+'') then tl s else s)
      in if ds = [] \<or> \<not> list_all isDigit ds then None
         else (let v = (if neg then - digitsValue ds else digitsValue ds)
               in if v < - (2 ^ 63) \<or> 2 ^ 63 - 1 < v then None else Some v))"

section \<open>End points and routes (route.go)\<close>

text \<open>\<^verbatim>\<open>type EndPoint struct { IP [4]byte; Port uint16 }\<close>; the array is a list of four bytes.\<close>

record EndPoint =
  IP :: "byte list"
  Port :: uint16

text \<open>A run-time panic of the Go program.\<close>

datatype panic = NilDereference | IndexOutOfRange

text \<open>
  \<^verbatim>\<open>net.IP\<close> is a byte slice. \<^verbatim>\<open>ip.To4()\<close> of the standard library returns the slice
  itself when it has four bytes, the last four bytes of a 16-byte IPv4-mapped address,
  and nil (the empty list) otherwise.
\<close>

definition To4 :: "byte list \<Rightarrow> byte list" where
  "To4 ip =
     (if length ip = 4 then ip
      else if length ip = 16 \<and> list_all (\<lambda>b. b = 0) (take 10 ip) \<and> ip ! 10 = 0xff \<and> ip ! 11 = 0xff
      then take 4 (drop 12 ip)
      else [])"

text \<open>
  The loop \<^verbatim>\<open>for i := 0; i < 4; i++ { ep.IP[i] = ipbs[i] }\<close> of \<^verbatim>\<open>NewEndPoint\<close>; reading
  \<^verbatim>\<open>ipbs[i]\<close> beyond the slice's length panics.
\<close>

function NewEndPoint_loop :: "byte list \<Rightarrow> nat \<Rightarrow> EndPoint \<Rightarrow> panic + EndPoint" where
  "NewEndPoint_loop ipbs i e =
     (if i < 4 then
        (if i < length ipbs then NewEndPoint_loop ipbs (i + 1) (e\<lparr>IP := (IP e)[i := ipbs ! i]\<rparr>)
         else Inl IndexOutOfRange)
      else Inr e)"
  by pat_completeness auto
termination
  by (relation "measure (\<lambda>(ipbs, i, e). 4 - i)") auto

text \<open>\<^verbatim>\<open>func NewEndPoint(ip net.IP, port uint16) *EndPoint\<close>.\<close>

definition NewEndPoint :: "byte list \<Rightarrow> uint16 \<Rightarrow> panic + EndPoint" where
  "NewEndPoint ip port =
     (let ipbs = To4 ip;
          e = \<lparr>IP = replicate 4 0, Port = 0\<rparr>
      in case NewEndPoint_loop ipbs 0 e of
           Inl p \<Rightarrow> Inl p
         | Inr e' \<Rightarrow> Inr (e'\<lparr>Port := port\<rparr>))"

text \<open>
  \<^verbatim>\<open>type RouteEntry struct\<close>: the end point it dials. Its connection and its three
  channels are handles on the network; what is done through them is recorded as events.
\<close>

record RouteEntry =
  ep :: EndPoint

definition NewRoutingEntry :: "EndPoint \<Rightarrow> RouteEntry" where
  "NewRoutingEntry e = \<lparr>ep = e\<rparr>"

datatype net_event =
    Dialed EndPoint
  | Written EndPoint "byte list"
  | CloseRequested EndPoint

text \<open>
  The global variables of main.go (\<^verbatim>\<open>routeTable\<close>, \<^verbatim>\<open>breakpoints\<close>, \<^verbatim>\<open>defaultroute\<close>, where
  \<open>None\<close> is the nil pointer), and the events on the outbound connections so far. Only
  the loop of \<^verbatim>\<open>main\<close> writes the three variables, so the handler is modelled as a
  sequential function of them; the tasks that \<^verbatim>\<open>initialize\<close> starts are not modelled.
\<close>

record globals =
  routeTable :: "(EndPoint, RouteEntry) mapping"
  breakpoints :: "(tlsRecordType, bool) mapping"
  defaultroute :: "EndPoint option"
  wire :: "net_event list"

text \<open>
  What the surroundings decide: the answer of \<^verbatim>\<open>net.LookupIP\<close>, whether dialing an end
  point succeeds within the six attempts of \<^verbatim>\<open>run\<close>, whether the retry loop of
  \<^verbatim>\<open>Write\<close> gets its bytes out, and whether the route's task \<^verbatim>\<open>run\<close> is still in its loop
  to receive what \<^verbatim>\<open>Close\<close> sends on the unbuffered \<^verbatim>\<open>restartchan\<close> (it has left the loop
  for good once its dials have failed six times in all).
\<close>

record env =
  LookupIP :: "string \<Rightarrow> error + byte list list"
  dial_ok :: "EndPoint \<Rightarrow> bool"
  write_ok :: "EndPoint \<Rightarrow> bool"
  close_ok :: "EndPoint \<Rightarrow> bool"

text \<open>A call returns a value, panics, or blocks for ever on a channel.\<close>

datatype 'a outcome = Returns 'a | Panics panic | Blocks

text \<open>
  \<^verbatim>\<open>func (re *RouteEntry) Run()\<close> starts \<^verbatim>\<open>run\<close> and waits on \<^verbatim>\<open>readychan\<close>, which is
  signalled only after a successful dial. \<^verbatim>\<open>Write\<close> repeats \<^verbatim>\<open>conn.Write\<close> across
  restarts until one succeeds. \<^verbatim>\<open>Close\<close> sends on \<^verbatim>\<open>closechan\<close> and then on
  \<^verbatim>\<open>restartchan\<close>; the second send returns when \<^verbatim>\<open>run\<close> receives it and blocks for ever
  when \<^verbatim>\<open>run\<close> has ended.
\<close>

definition RouteEntry_Run :: "env \<Rightarrow> RouteEntry \<Rightarrow> globals \<Rightarrow> globals outcome" where
  "RouteEntry_Run en re s =
     (if dial_ok en (ep re) then Returns (s\<lparr>wire := wire s @ [Dialed (ep re)]\<rparr>) else Blocks)"

definition RouteEntry_Write :: "env \<Rightarrow> RouteEntry \<Rightarrow> byte list \<Rightarrow> globals \<Rightarrow> globals outcome" where
  "RouteEntry_Write en re buf s =
     (if write_ok en (ep re) then Returns (s\<lparr>wire := wire s @ [Written (ep re) buf]\<rparr>) else Blocks)"

definition RouteEntry_Close :: "env \<Rightarrow> RouteEntry \<Rightarrow> globals \<Rightarrow> globals outcome" where
  "RouteEntry_Close en re s =
     (if close_ok en (ep re) then Returns (s\<lparr>wire := wire s @ [CloseRequested (ep re)]\<rparr>) else Blocks)"

section \<open>The command handler (main.go)\<close>

text \<open>The closure \<^verbatim>\<open>parseEP\<close> of \<^verbatim>\<open>handleCMD\<close>; \<^verbatim>\<open>uint16(port)\<close> truncates.\<close>

definition parseEP :: "env \<Rightarrow> string \<Rightarrow> string \<Rightarrow> (error + EndPoint) outcome" where
  "parseEP en sip sport =
     (case LookupIP en sip of
        Inl e \<Rightarrow> Returns (Inl e)
      | Inr ips \<Rightarrow>
          if length ips = 0 then Returns (Inl IPNotFound)
          else
            (let ip = ips ! 0 in
             case Atoi sport of
               None \<Rightarrow> Returns (Inl AtoiFailed)
             | Some port \<Rightarrow>
                 (case NewEndPoint ip (word_of_int port) of
                    Inl p \<Rightarrow> Panics p
                  | Inr e \<Rightarrow> Returns (Inr e))))"

text \<open>
  The shared body of \<^verbatim>\<open>case continueType\<close> (after its \<^verbatim>\<open>fallthrough\<close>) and
  \<^verbatim>\<open>case forwardRecord\<close>: \<^verbatim>\<open>*defaultroute\<close> is read first, then the record is tested,
  then \<^verbatim>\<open>re.Write\<close> reads \<^verbatim>\<open>re.conn\<close>.
\<close>

definition forward_body :: "env \<Rightarrow> tlsRecord option \<Rightarrow> globals \<Rightarrow> (bool \<times> error option \<times> globals) outcome" where
  "forward_body en rcd s =
     (case defaultroute s of
        None \<Rightarrow> Panics NilDereference
      | Some d \<Rightarrow>
          (let re = Mapping.lookup (routeTable s) d in
           case rcd of
             None \<Rightarrow> Returns (False, Some NoRecord, s)
           | Some r \<Rightarrow>
               (case re of
                  None \<Rightarrow> Panics NilDereference
                | Some re' \<Rightarrow>
                    (case RouteEntry_Write en re' (toBytes r) s of
                       Returns s' \<Rightarrow> Returns (True, None, s')
                     | Panics p \<Rightarrow> Panics p
                     | Blocks \<Rightarrow> Blocks))))"

text \<open>
  \<^verbatim>\<open>func handleCMD(cmd *command, record *tlsRecord) (bool, error)\<close>, with the globals
  passed in and returned. The result is the pair the source returns (the flag that ends
  the prompt loop, and the error or \<open>None\<close> for nil) and the globals afterwards. What
  the handler prints is not part of the model; \<^verbatim>\<open>case listRoute\<close> keeps only the read of
  \<^verbatim>\<open>*defaultroute\<close> that its loop body makes for each entry. The switch has no case for
  \<^verbatim>\<open>quitProgram\<close>, which therefore reaches the final \<^verbatim>\<open>return bk, nil\<close>.
\<close>

definition handleCMD ::
    "env \<Rightarrow> command \<Rightarrow> tlsRecord option \<Rightarrow> globals \<Rightarrow> (bool \<times> error option \<times> globals) outcome" where
  "handleCMD en c rcd s =
     (case cmd c of
        breakType \<Rightarrow>
          if length (args c) \<noteq> 1 then Returns (False, Some ArgsWrong, s)
          else
            (case Atoi (args c ! 0) of
               None \<Rightarrow> Returns (False, Some ArgsWrong, s)
             | Some result \<Rightarrow>
                 (let bp = (word_of_int result :: byte);
                      rt = bp
                  in if Mapping.lookup (breakpoints s) rt \<noteq> None
                     then Returns (False, None, s\<lparr>breakpoints := Mapping.delete rt (breakpoints s)\<rparr>)
                     else Returns (False, None, s\<lparr>breakpoints := Mapping.update bp True (breakpoints s)\<rparr>)))
      | addRoute \<Rightarrow>
          if length (args c) \<noteq> 2 then Returns (False, Some ArgsWrong, s)
          else
            (case parseEP en (args c ! 0) (args c ! 1) of
               Panics p \<Rightarrow> Panics p
             | Blocks \<Rightarrow> Blocks
             | Returns (Inl e) \<Rightarrow> Returns (False, Some e, s)
             | Returns (Inr e) \<Rightarrow>
                 (let re = NewRoutingEntry e in
                  case RouteEntry_Run en re s of
                    Panics p \<Rightarrow> Panics p
                  | Blocks \<Rightarrow> Blocks
                  | Returns s1 \<Rightarrow>
                      (let s2 = (if Mapping.is_empty (routeTable s1) then s1\<lparr>defaultroute := Some e\<rparr> else s1)
                       in Returns (False, None, s2\<lparr>routeTable := Mapping.update e re (routeTable s2)\<rparr>))))
      | removeRoute \<Rightarrow>
          if length (args c) \<noteq> 2 then Returns (False, Some ArgsWrong, s)
          else
            (case parseEP en (args c ! 0) (args c ! 1) of
               Panics p \<Rightarrow> Panics p
             | Blocks \<Rightarrow> Blocks
             | Returns (Inl e) \<Rightarrow> Returns (False, Some e, s)
             | Returns (Inr e) \<Rightarrow>
                 (case Mapping.lookup (routeTable s) e of
                    None \<Rightarrow> Returns (False, Some NoSuchRoute, s)
                  | Some re \<Rightarrow>
                      (case RouteEntry_Close en re s of
                         Panics p \<Rightarrow> Panics p
                       | Blocks \<Rightarrow> Blocks
                       | Returns s1 \<Rightarrow>
                           Returns (False, None, s1\<lparr>routeTable := Mapping.delete e (routeTable s1)\<rparr>))))
      | listRoute \<Rightarrow>
          if \<not> Mapping.is_empty (routeTable s) \<and> defaultroute s = None then Panics NilDereference
          else Returns (False, None, s)
      | setDefaultRoute \<Rightarrow>
          if length (args c) \<noteq> 2 then Returns (False, Some ArgsWrong, s)
          else
            (case parseEP en (args c ! 0) (args c ! 1) of
               Panics p \<Rightarrow> Panics p
             | Blocks \<Rightarrow> Blocks
             | Returns (Inl e) \<Rightarrow> Returns (False, Some e, s)
             | Returns (Inr newep) \<Rightarrow>
                 (case Mapping.lookup (routeTable s) newep of
                    None \<Rightarrow> Returns (False, Some NoSuchRoute, s)
                  | Some re \<Rightarrow> Returns (False, None, s\<lparr>defaultroute := Some newep\<rparr>)))
      | continueType \<Rightarrow>
          if rcd = None then Returns (True, None, s) else forward_body en rcd s
      | forwardRecord \<Rightarrow> forward_body en rcd s
      | dropRecord \<Rightarrow> Returns (True, None, s)
      | quitProgram \<Rightarrow> Returns (False, None, s)
      | unknown \<Rightarrow> Returns (False, Some UnknownCommand, s))"

text \<open>
  The globals as \<^verbatim>\<open>main\<close> sets them before its loop: \<^verbatim>\<open>breakpoints =
  map[tlsRecordType]bool{0x17: true}\<close>, an empty \<^verbatim>\<open>routeTable\<close>, and \<^verbatim>\<open>defaultroute\<close> nil.
\<close>

definition initial_globals :: globals where
  "initial_globals =
     \<lparr>routeTable = Mapping.empty,
      breakpoints = Mapping.update 0x17 True Mapping.empty,
      defaultroute = None,
      wire = []\<rparr>"

text \<open>The default end point, when there is one, is a key of the route table.\<close>

definition default_in_table :: "globals \<Rightarrow> bool" where
  "default_in_table s =
     (case defaultroute s of None \<Rightarrow> True | Some d \<Rightarrow> Mapping.lookup (routeTable s) d \<noteq> None)"

section \<open>Concrete inputs\<close>

text \<open>
  A resolver that knows the loopback address and one host with an IPv6 address only, on a
  network where every dial, every write and every close goes through; two end points; the globals after
  \<^verbatim>\<open>a 127.0.0.1 9000\<close> on a fresh start, and after \<^verbatim>\<open>a 127.0.0.1 9001\<close> next; and an
  application-data record.
\<close>

definition lab_env :: env where
  "lab_env = \<lparr>LookupIP = (\<lambda>host. if host = ''127.0.0.1'' then Inr [[127, 0, 0, 1]]
                                 else if host = ''ip6-localhost'' then Inr [[0,0,0,0,0,0,0,0,0,0,0,0,0,0,0,1]]
                                 else Inl LookupFailed),
              dial_ok = (\<lambda>e. True), write_ok = (\<lambda>e. True), close_ok = (\<lambda>e. True)\<rparr>"

definition loopback_9000 :: EndPoint where
  "loopback_9000 = \<lparr>IP = [127, 0, 0, 1], Port = 9000\<rparr>"

definition one_route :: globals where
  "one_route = \<lparr>routeTable = Mapping.update loopback_9000 \<lparr>ep = loopback_9000\<rparr> Mapping.empty,
      breakpoints = Mapping.update 0x17 True Mapping.empty,
      defaultroute = Some loopback_9000,
      wire = [Dialed loopback_9000]\<rparr>"

definition loopback_9001 :: EndPoint where
  "loopback_9001 = \<lparr>IP = [127, 0, 0, 1], Port = 9001\<rparr>"

definition two_routes :: globals where
  "two_routes = \<lparr>routeTable = Mapping.update loopback_9001 \<lparr>ep = loopback_9001\<rparr>
                     (Mapping.update loopback_9000 \<lparr>ep = loopback_9000\<rparr> Mapping.empty),
      breakpoints = Mapping.update 0x17 True Mapping.empty,
      defaultroute = Some loopback_9000,
      wire = [Dialed loopback_9000, Dialed loopback_9001]\<rparr>"

definition hello_record :: tlsRecord where
  "hello_record = \<lparr>Remote = None, Type = 0x17, Version = [3, 3], Length = 5,
       Data = [0x68, 0x65, 0x6c, 0x6c, 0x6f]\<rparr>"

section \<open>Properties of the record codec\<close>

lemma replicate_numeral: "replicate (numeral k) x = x # replicate (pred_numeral k) x"
  by (simp add: numeral_eq_Suc)

declare read_payload.simps [simp del]

lemma read_payload_step:
  assumes "l < n"
  shows "read_payload (c # cs) buf l n =
     (if length c \<le> min 512 (n - l)
      then read_payload cs (take l buf @ c @ drop (l + length c) buf) (l + length c) n
      else read_payload (drop (min 512 (n - l)) c # cs)
             (take l buf @ take (min 512 (n - l)) c @ drop (l + min 512 (n - l)) buf)
             (l + min 512 (n - l)) n)"
proof -
  define k where "k = min 512 (n - l)"
  have r: "(if l + 512 < n then l + 512 else n) - l = k"
    using assms by (auto simp add: k_def min_def)
  have r': "(if l + 512 < n then l + 512 else n) = l + k"
    using assms by (auto simp add: k_def min_def)
  have unf: "read_payload (c # cs) buf l n =
     (case conn_Read k (c # cs) of
           Inl e \<Rightarrow> Inl e
         | Inr (d, cn') \<Rightarrow>
             (let nread = length d;
                  buf' = take l buf @ d @ drop (l + nread) buf
              in if nread \<noteq> k then read_payload cn' buf' (l + nread) n
                 else read_payload cn' buf' (l + k) n))"
    using assms by (subst read_payload.simps) (simp only: r' Let_def if_True add_diff_cancel_left')
  show ?thesis
  proof (cases "length c \<le> k")
    case True
    then show ?thesis unfolding unf k_def [symmetric] by (simp add: Let_def)
  next
    case False
    then show ?thesis unfolding unf k_def [symmetric] by (simp add: Let_def)
  qed
qed

lemma read_payload_done: "\<not> l < n \<Longrightarrow> read_payload cn buf l n = Inr (buf, cn)"
  by (subst read_payload.simps) simp

lemma read_payload_concat:
  "length buf = n \<Longrightarrow> l \<le> n \<Longrightarrow> length (concat cn) = n - l \<Longrightarrow>
   \<exists>rest. read_payload cn buf l n = Inr (take l buf @ concat cn, rest) \<and> concat rest = [] \<and>
      ([] \<notin> set cn \<longrightarrow> rest = [])"
proof (induction "(n - l) + length cn" arbitrary: cn buf l rule: less_induct)
  case less
  show ?case
  proof (cases "l < n")
    case False
    with less.prems have "concat cn = []" by simp
    then have "[] \<notin> set cn \<longrightarrow> cn = []" by (cases cn) auto
    with False less.prems show ?thesis by (simp add: read_payload_done)
  next
    case True
    with less.prems obtain c cs where cn: "cn = c # cs" by (cases cn) auto
    define k where "k = min 512 (n - l)"
    have kpos: "0 < k" and kle: "l + k \<le> n" using True by (simp_all add: k_def)
    have lenc: "length c + length (concat cs) = n - l" using less.prems(3) by (simp add: cn)
    show ?thesis
    proof (cases "length c \<le> k")
      case short: True
      define buf' where "buf' = take l buf @ c @ drop (l + length c) buf"
      have le: "l + length c \<le> n" using short kle by arith
      have len: "length buf' = n" using less.prems(1) le by (simp add: buf'_def)
      have rem: "length (concat cs) = n - (l + length c)" using lenc by arith
      have "n - (l + length c) + length cs < n - l + length cn" by (simp add: cn)
      from less.hyps [OF this len le rem]
      obtain rest where "read_payload cs buf' (l + length c) n = Inr (take (l + length c) buf' @ concat cs, rest)"
        and "concat rest = []" and "[] \<notin> set cs \<longrightarrow> rest = []" by blast
      moreover have "take (l + length c) buf' = take l buf @ c"
        using less.prems(1) True by (simp add: buf'_def)
      ultimately show ?thesis using True short
        by (simp add: cn read_payload_step k_def [symmetric] buf'_def [symmetric])
    next
      case long: False
      define buf' where "buf' = take l buf @ take k c @ drop (l + k) buf"
      define cn' where "cn' = drop k c # cs"
      have len: "length buf' = n" using less.prems(1) long kle by (simp add: buf'_def)
      have rem: "length (concat cn') = n - (l + k)" using lenc long by (simp add: cn'_def)
      have "n - (l + k) + length cn' < n - l + length cn" using kpos kle by (simp add: cn cn'_def)
      from less.hyps [OF this len kle rem]
      obtain rest where "read_payload cn' buf' (l + k) n = Inr (take (l + k) buf' @ concat cn', rest)"
        and "concat rest = []" and "[] \<notin> set cn' \<longrightarrow> rest = []" by blast
      moreover have "[] \<notin> set cn \<longrightarrow> [] \<notin> set cn'" using long by (auto simp add: cn cn'_def)
      moreover have "take (l + k) buf' @ concat cn' = take l buf @ concat cn"
        using less.prems(1) True long by (simp add: cn buf'_def cn'_def)
      ultimately show ?thesis using True long
        by (simp add: cn read_payload_step k_def [symmetric] buf'_def [symmetric] cn'_def [symmetric])
    qed
  qed
qed


lemma Uint16_PutUint16: "Uint16 (PutUint16 v) = v"
  unfolding Uint16_def PutUint16_def
  apply simp
  apply (rule bit_word_eqI)
  apply (auto simp add: bit_simps)
  done

lemma unat_length_uint16: "n \<le> 65535 \<Longrightarrow> unat (of_nat n :: uint16) = n"
  by (simp add: unat_of_nat)

lemma readTLSRecord_whole_header:
  assumes t: "0x14 \<le> t" "t \<le> 0x18" and v: "length v = 2" and p: "length p \<le> 65535"
    and cat: "concat (c # cs) = toBytes \<lparr>Remote = None, Type = t, Version = v, Length = of_nat (length p), Data = p\<rparr>"
    and hd: "5 \<le> length c"
  shows "\<exists>rest. readTLSRecord (c # cs) =
           Inr (\<lparr>Remote = None, Type = t, Version = v, Length = of_nat (length p), Data = p\<rparr>, rest) \<and>
           concat rest = [] \<and> ([] \<notin> set (c # cs) \<longrightarrow> rest = [])"
proof -
  from v obtain v0 v1 where v01: "v = [v0, v1]"
    by (cases v; cases "tl v") auto
  define hdr where "hdr = t # v @ PutUint16 (of_nat (length p))"
  have hlen: "length hdr = 5" by (simp add: hdr_def v01 PutUint16_def)
  have cat': "c @ concat cs = hdr @ p" using cat by (simp add: toBytes_def hdr_def)
  have c5: "take 5 c = hdr" using cat' hd hlen
    by (metis append_eq_append_conv_if append_eq_conv_conj take_all_iff take_take min.absorb1 order_refl)
  define cn1 where "cn1 = (if length c \<le> 5 then cs else drop 5 c # cs)"
  have rd: "conn_Read 5 (c # cs) = Inr (hdr, cn1)"
    using hd c5 by (auto simp add: cn1_def)
  have "take 5 c @ drop 5 c @ concat cs = hdr @ p" using cat' by (metis append_take_drop_id append_assoc)
  then have rest: "concat cn1 = p" using c5 hd by (auto simp add: cn1_def)
  have noempty: "[] \<notin> set (c # cs) \<longrightarrow> [] \<notin> set cn1" by (auto simp add: cn1_def)
  have buf: "hdr @ replicate (5 - length hdr) (0::byte) = hdr" using hlen by simp
  have b0: "hdr ! 0 = t" by (simp add: hdr_def)
  have ver: "take 2 (drop 1 hdr) = v" by (simp add: hdr_def v01)
  have ty: "\<not> (t < 0x14 \<or> t > 0x18)" using t by (simp add: not_less)
  have len16: "Uint16 (take 2 (drop 3 hdr)) = of_nat (length p)"
  proof -
    have "length (PutUint16 (of_nat (length p))) = 2" by (simp add: PutUint16_def)
    then have "take 2 (drop 3 hdr) = PutUint16 (of_nat (length p))" by (simp add: hdr_def v01)
    then show ?thesis by (simp add: Uint16_PutUint16)
  qed
  have un: "unat (of_nat (length p) :: uint16) = length p" using p by (rule unat_length_uint16)
  have "length (replicate (length p) (0::byte)) = length p" "0 \<le> length p"
    "length (concat cn1) = length p - 0" using rest by simp_all
  from read_payload_concat [OF this]
  obtain r where r: "read_payload cn1 (replicate (length p) 0) 0 (length p) = Inr (p, r)"
    "concat r = []" "[] \<notin> set cn1 \<longrightarrow> r = []" using rest by auto
  have "readTLSRecord (c # cs) =
           Inr (\<lparr>Remote = None, Type = t, Version = v, Length = of_nat (length p), Data = p\<rparr>, r)"
    unfolding readTLSRecord_def rd
    by (simp only: sum.case prod.case Let_def buf b0 ver len16 un r(1) ty if_False)
  with r noempty show ?thesis by auto
qed

text \<open>
  C1 (evaluation of the code). The six bytes of one record, header \<open>16 03 03 00 01\<close> and
  payload \<open>AA\<close>, are delivered once byte by byte and once in one chunk. The single
  header read of \<^verbatim>\<open>readTLSRecord\<close> takes what the first chunk holds: delivered byte by
  byte, the record comes out with version \<open>00 00\<close>, length 0 and no payload, after
  one byte of the stream; delivered whole, it comes out as sent.
\<close>

theorem readTLSRecord_header_short_read:
  "readTLSRecord [[0x16], [3], [3], [0], [1], [0xAA]] =
     Inr (\<lparr>Remote = None, Type = 0x16, Version = [0, 0], Length = 0, Data = []\<rparr>,
          [[3], [3], [0], [1], [0xAA]]) \<and>
   readTLSRecord [[0x16, 3, 3, 0, 1, 0xAA]] =
     Inr (\<lparr>Remote = None, Type = 0x16, Version = [3, 3], Length = 1, Data = [0xAA]\<rparr>, [])"
  by (simp add: readTLSRecord_def Uint16_def replicate_numeral read_payload.simps)

text \<open>
  C2. For a type in \<open>0x14..0x18\<close>, a two-byte version and a payload of at most 65535
  bytes, let \<open>r\<close> be the record built from them, its length field the payload's length.
  Reading back the bytes that \<^verbatim>\<open>toBytes\<close> gives for \<open>r\<close> returns \<open>r\<close> itself, with
  nothing left on the connection. The same holds however the bytes are cut into chunks,
  as long as the first chunk holds the five header bytes.
\<close>

theorem decode_encode_roundtrip:
  assumes "0x14 \<le> t" "t \<le> 0x18" "length v = 2" "length p \<le> 65535"
    and "r = \<lparr>Remote = None, Type = t, Version = v, Length = of_nat (length p), Data = p\<rparr>"
  shows "readTLSRecord [toBytes r] = Inr (r, []) \<and>
     unat (Length r) = length p \<and>
     (\<forall>chunks. chunks \<noteq> [] \<and> 5 \<le> length (hd chunks) \<and> concat chunks = toBytes r \<longrightarrow>
        (\<exists>rest. readTLSRecord chunks = Inr (r, rest) \<and> concat rest = []))"
proof -
  have len: "5 \<le> length (toBytes r)" using assms(3,5) by (simp add: toBytes_def PutUint16_def)
  then have ne: "[] \<notin> set [toBytes r]" by auto
  have cat: "concat [toBytes r] = toBytes r" by simp
  have one: "readTLSRecord [toBytes r] = Inr (r, [])"
    using readTLSRecord_whole_header [OF assms(1-4), of "toBytes r" "[]"] len ne cat
    unfolding assms(5) by auto
  have un: "unat (Length r) = length p"
    using assms(4) by (simp add: assms(5) unat_length_uint16)
  have frag: "\<exists>rest. readTLSRecord chunks = Inr (r, rest) \<and> concat rest = []"
    if "chunks \<noteq> []" "5 \<le> length (hd chunks)" "concat chunks = toBytes r" for chunks
  proof -
    from that(1) obtain c cs where c: "chunks = c # cs" by (cases chunks) auto
    from readTLSRecord_whole_header [OF assms(1-4), of c cs] that(2,3)
    show ?thesis unfolding assms(5) c by auto
  qed
  from one un frag show ?thesis by blast
qed

theorem decode_encode_roundtrip_witness:
  "readTLSRecord [toBytes \<lparr>Remote = None, Type = 0x17, Version = [3, 3], Length = 3, Data = [1, 2, 3]\<rparr>]
     = Inr (\<lparr>Remote = None, Type = 0x17, Version = [3, 3], Length = 3, Data = [1, 2, 3]\<rparr>, []) \<and>
   (\<exists>rest. readTLSRecord [[0x17, 3, 3, 0, 3, 1], [2], [], [3]]
     = Inr (\<lparr>Remote = None, Type = 0x17, Version = [3, 3], Length = 3, Data = [1, 2, 3]\<rparr>, rest) \<and> concat rest = [])"
proof -
  let ?r = "\<lparr>Remote = None, Type = 0x17, Version = [3, 3], Length = 3, Data = [1, 2, 3]\<rparr>"
  have t: "toBytes ?r = [0x17, 3, 3, 0, 3, 1, 2, 3]" by (simp add: toBytes_def PutUint16_def)
  have "(0x14 :: byte) \<le> 0x17" "(0x17 :: byte) \<le> 0x18" "length [3, 3 :: byte] = 2"
    "length [1, 2, 3 :: byte] \<le> 65535"
    "?r = \<lparr>Remote = None, Type = 0x17, Version = [3, 3], Length = of_nat (length [1, 2, 3 :: byte]), Data = [1, 2, 3]\<rparr>"
    by simp_all
  from decode_encode_roundtrip [OF this] have
    a: "readTLSRecord [toBytes ?r] = Inr (?r, [])" and
    b: "\<And>chunks. chunks \<noteq> [] \<Longrightarrow> 5 \<le> length (hd chunks) \<Longrightarrow> concat chunks = toBytes ?r \<Longrightarrow>
        (\<exists>rest. readTLSRecord chunks = Inr (?r, rest) \<and> concat rest = [])"
    by blast+
  have "\<exists>rest. readTLSRecord [[0x17, 3, 3, 0, 3, 1], [2], [], [3]] = Inr (?r, rest) \<and> concat rest = []"
    by (rule b) (simp_all add: t)
  with a show ?thesis by simp
qed

text \<open>
  C3 (as amended). \<^verbatim>\<open>toBytes\<close> lays out the type byte, the version bytes, two length
  bytes in big-endian order and the payload; the two length bytes are the record's stored
  \<^verbatim>\<open>Length\<close> field, not a count of the payload, so the serialized length is the payload's
  length exactly when the stored field is.
\<close>

theorem toBytes_stored_length:
  "toBytes r ! 0 = Type r \<and>
   take (length (Version r)) (drop 1 (toBytes r)) = Version r \<and>
   take 2 (drop (1 + length (Version r)) (toBytes r)) = [ucast (drop_bit 8 (Length r)), ucast (Length r)] \<and>
   Uint16 (take 2 (drop (1 + length (Version r)) (toBytes r))) = Length r \<and>
   drop (3 + length (Version r)) (toBytes r) = Data r \<and>
   (unat (Uint16 (take 2 (drop (1 + length (Version r)) (toBytes r)))) = length (Data r)
      \<longleftrightarrow> unat (Length r) = length (Data r))"
proof -
  have a: "take 2 (drop (1 + length (Version r)) (toBytes r)) = PutUint16 (Length r)"
    by (simp add: toBytes_def PutUint16_def)
  have "toBytes r = (Type r # Version r @ PutUint16 (Length r)) @ Data r"
    by (simp add: toBytes_def)
  moreover have "length (Type r # Version r @ PutUint16 (Length r)) = 3 + length (Version r)"
    by (simp add: PutUint16_def)
  ultimately have d: "drop (3 + length (Version r)) (toBytes r) = Data r"
    by (metis append_eq_conv_conj)
  have v: "take (length (Version r)) (drop 1 (toBytes r)) = Version r"
    by (simp add: toBytes_def)
  have t: "toBytes r ! 0 = Type r" by (simp add: toBytes_def)
  show ?thesis
    by (simp only: a d v t Uint16_PutUint16) (simp add: PutUint16_def)
qed

text \<open>
  C3 as stated fails on a record whose stored length disagrees with its payload: with
  \<open>Length = 0\<close> and a one-byte payload the serialized length is 0, not 1.
\<close>

theorem toBytes_stale_length_counterexample:
  "toBytes \<lparr>Remote = None, Type = 0x17, Version = [3, 3], Length = 0, Data = [1]\<rparr> = [0x17, 3, 3, 0, 0, 1] \<and>
   Uint16 (take 2 (drop 3 (toBytes \<lparr>Remote = None, Type = 0x17, Version = [3, 3], Length = 0, Data = [1]\<rparr>)))
     \<noteq> of_nat (length (Data \<lparr>Remote = None, Type = 0x17, Version = [3, 3], Length = 0, Data = [1]\<rparr>))"
  by (simp add: toBytes_def PutUint16_def Uint16_def)

section \<open>Properties of the command parser\<close>

lemma getCommandType_not_remove: "getCommandType ch \<noteq> removeRoute"
  by (simp add: getCommandType_def)

text \<open>
  C4 (evaluation of the code). \<^verbatim>\<open>getCommandType\<close> has no case for the letter \<open>r\<close>: the
  line \<open>r 127.0.0.1 1589\<close> is refused as wrong syntax, and no line at all is parsed
  to the remove-route command.
\<close>

theorem parser_never_removeRoute:
  "getNextCommand ''r 127.0.0.1 1589'' = None \<and>
   getCommandType CHR ''r'' = unknown \<and>
   map_option cmd (getNextCommand scanned) \<noteq> Some removeRoute"
proof -
  have "getNextCommand ''r 127.0.0.1 1589'' = None"
    by code_simp
  moreover have "getCommandType CHR ''r'' = unknown" by (simp add: getCommandType_def)
  moreover have "map_option cmd (getNextCommand scanned) \<noteq> Some removeRoute"
    by (auto simp add: getNextCommand_def Let_def getCommandType_not_remove)
  ultimately show ?thesis by simp
qed

theorem parser_never_removeRoute_witness:
  "getNextCommand ''r 127.0.0.1 1589'' = None \<and>
   map_option cmd (getNextCommand ''a 127.0.0.1 1589'') = Some addRoute \<and>
   map_option cmd (getNextCommand ''r 10.0.0.7 443'') \<noteq> Some removeRoute"
proof -
  have "map_option cmd (getNextCommand ''a 127.0.0.1 1589'') = Some addRoute"
    by code_simp
  with parser_never_removeRoute [of "''r 10.0.0.7 443''"] show ?thesis by simp
qed

section \<open>Properties of end points\<close>

lemma NewEndPoint_loop_ok:
  "length ipbs = 4 \<Longrightarrow> length (IP e) = 4 \<Longrightarrow> NewEndPoint_loop ipbs 0 e = Inr (e\<lparr>IP := ipbs\<rparr>)"
proof -
  assume a: "length ipbs = 4" "length (IP e) = 4"
  then obtain a0 a1 a2 a3 where ip: "ipbs = [a0, a1, a2, a3]"
    by (cases ipbs; cases "tl ipbs"; cases "tl (tl ipbs)"; cases "tl (tl (tl ipbs))") auto
  from a obtain b0 b1 b2 b3 where e: "IP e = [b0, b1, b2, b3]"
    by (cases "IP e"; cases "tl (IP e)"; cases "tl (tl (IP e))"; cases "tl (tl (tl (IP e)))") auto
  show ?thesis by (simp add: ip e)
qed

lemma To4_length: "To4 ip \<noteq> [] \<Longrightarrow> length (To4 ip) = 4"
  by (auto simp add: To4_def split: if_splits)

lemma NewEndPoint_nil: "To4 ip = [] \<Longrightarrow> NewEndPoint ip port = Inl IndexOutOfRange"
  by (simp add: NewEndPoint_def)

lemma NewEndPoint_ok:
  assumes "To4 ip \<noteq> []"
  shows "NewEndPoint ip port = Inr \<lparr>IP = To4 ip, Port = port\<rparr>"
proof -
  have "NewEndPoint_loop (To4 ip) 0 \<lparr>IP = replicate 4 0, Port = 0\<rparr>
          = Inr (\<lparr>IP = replicate 4 0, Port = 0\<rparr>\<lparr>IP := To4 ip\<rparr>)"
    using assms by (intro NewEndPoint_loop_ok) (simp_all add: To4_length)
  then show ?thesis
    by (simp add: NewEndPoint_def Let_def del: NewEndPoint_loop.simps)
qed

lemma parseEP_nil:
  "LookupIP en sip = Inr (ip # ips) \<Longrightarrow> Atoi sport = Some n \<Longrightarrow> To4 ip = [] \<Longrightarrow>
   parseEP en sip sport = Panics IndexOutOfRange"
  by (simp add: parseEP_def NewEndPoint_nil)

lemma lab_env_ok [simp]: "dial_ok lab_env e" "write_ok lab_env e" "close_ok lab_env e"
  by (simp_all add: lab_env_def)

lemma Atoi_9000: "Atoi ''9000'' = Some 9000"
  by (simp add: Atoi_def isDigit_def digitsValue_def)

lemma parseEP_9000: "parseEP lab_env ''127.0.0.1'' ''9000'' = Returns (Inr loopback_9000)"
  by (simp add: parseEP_def lab_env_def Atoi_9000 NewEndPoint_def To4_def replicate_numeral loopback_9000_def)

text \<open>
  C10. An address without a four-byte form makes \<^verbatim>\<open>NewEndPoint\<close> index the nil slice
  that \<^verbatim>\<open>To4\<close> returns, which panics; an address with one gives the end point. So the
  add, remove and set-default commands panic, rather than return an error, when the name
  resolves to such an address first and the port parses.
\<close>

theorem NewEndPoint_requires_ipv4:
  "(To4 ip = [] \<longrightarrow> NewEndPoint ip port = Inl IndexOutOfRange) \<and>
   (To4 ip \<noteq> [] \<longrightarrow> NewEndPoint ip port = Inr \<lparr>IP = To4 ip, Port = port\<rparr>) \<and>
   (To4 ip = [] \<and> (cmd c = addRoute \<or> cmd c = removeRoute \<or> cmd c = setDefaultRoute) \<and>
      args c = [sip, sport] \<and> LookupIP en sip = Inr (ip # ips) \<and> Atoi sport = Some n
    \<longrightarrow> handleCMD en c rcd s = Panics IndexOutOfRange)"
  by (auto simp add: NewEndPoint_nil NewEndPoint_ok handleCMD_def parseEP_nil)

theorem NewEndPoint_requires_ipv4_witness:
  "NewEndPoint [0,0,0,0,0,0,0,0,0,0,0,0,0,0,0,1] 9000 = Inl IndexOutOfRange \<and>
   NewEndPoint [127, 0, 0, 1] 9000 = Inr loopback_9000 \<and>
   handleCMD lab_env \<lparr>cmd = addRoute, args = [''ip6-localhost'', ''9000'']\<rparr> None initial_globals
     = Panics IndexOutOfRange"
proof -
  have 1: "To4 [0,0,0,0,0,0,0,0,0,0,0,0,0,0,0,1] = []" by (simp add: To4_def)
  have 2: "To4 [127, 0, 0, 1] = [127, 0, 0, 1]" by (simp add: To4_def)
  have 3: "LookupIP lab_env ''ip6-localhost'' = Inr [[0,0,0,0,0,0,0,0,0,0,0,0,0,0,0,1]]"
    by (simp add: lab_env_def)
  show ?thesis
    using NewEndPoint_requires_ipv4 [of "[0,0,0,0,0,0,0,0,0,0,0,0,0,0,0,1]" 9000
        "\<lparr>cmd = addRoute, args = [''ip6-localhost'', ''9000'']\<rparr>" "''ip6-localhost''" "''9000''"
        lab_env "[]" 9000 None initial_globals]
      NewEndPoint_requires_ipv4 [of "[127, 0, 0, 1]" 9000]
    by (simp add: 1 2 3 Atoi_9000 loopback_9000_def)
qed

section \<open>Properties of the command handler\<close>

lemma add_first_eval:
  "handleCMD lab_env \<lparr>cmd = addRoute, args = [''127.0.0.1'', ''9000'']\<rparr> None initial_globals
     = Returns (False, None, one_route)"
  by (simp add: handleCMD_def parseEP_9000 RouteEntry_Run_def NewRoutingEntry_def initial_globals_def one_route_def)

lemma delete_absent: "Mapping.lookup m k = None \<Longrightarrow> Mapping.delete k m = m"
  by transfer (simp add: fun_upd_idem)

lemma update_present: "Mapping.lookup m k = Some v \<Longrightarrow> Mapping.update k v m = m"
  by transfer (simp add: fun_upd_idem)

lemma in_keys_lookup: "k \<in> Mapping.keys m \<longleftrightarrow> Mapping.lookup m k \<noteq> None"
  by (simp add: keys_dom_lookup domIff)

text \<open>
  C5 (as amended). With no record pending, the continue command ends the prompt loop at
  once, writes nothing and changes nothing. With a record pending, and the default route
  in the table, it does what the forward command does: once the route's write goes
  through, the record's bytes are on the default route and the prompt loop ends. Whenever
  the continue command returns at all, it ends the prompt loop and reports no error.
\<close>

theorem continue_forwards_pending:
  assumes "cmd c = continueType"
  shows "handleCMD en c None s = Returns (True, None, s) \<and>
    (defaultroute s = Some d \<and> Mapping.lookup (routeTable s) d = Some re \<and> write_ok en (ep re) \<longrightarrow>
       handleCMD en c (Some r) s = Returns (True, None, s\<lparr>wire := wire s @ [Written (ep re) (toBytes r)]\<rparr>) \<and>
       handleCMD en c (Some r) s = handleCMD en (c\<lparr>cmd := forwardRecord\<rparr>) (Some r) s) \<and>
    (handleCMD en c rcd s = Returns (bk, err, s') \<longrightarrow> bk \<and> err = None)"
proof -
  have 1: "handleCMD en c None s = Returns (True, None, s)"
    using assms by (simp add: handleCMD_def)
  have 2: "handleCMD en c (Some r) s = Returns (True, None, s\<lparr>wire := wire s @ [Written (ep re) (toBytes r)]\<rparr>) \<and>
       handleCMD en c (Some r) s = handleCMD en (c\<lparr>cmd := forwardRecord\<rparr>) (Some r) s"
    if "defaultroute s = Some d" "Mapping.lookup (routeTable s) d = Some re" "write_ok en (ep re)"
    using assms that by (simp add: handleCMD_def forward_body_def RouteEntry_Write_def)
  have 3: "bk \<and> err = None" if "handleCMD en c rcd s = Returns (bk, err, s')"
    using assms that
    by (auto simp add: handleCMD_def forward_body_def RouteEntry_Write_def Let_def
        split: if_splits option.splits outcome.splits)
  from 1 2 3 show ?thesis by blast
qed

theorem continue_forwards_pending_witness:
  "handleCMD lab_env \<lparr>cmd = continueType, args = []\<rparr> None one_route = Returns (True, None, one_route) \<and>
   handleCMD lab_env \<lparr>cmd = continueType, args = []\<rparr> (Some hello_record) one_route =
     Returns (True, None, one_route\<lparr>wire := wire one_route @ [Written loopback_9000 (toBytes hello_record)]\<rparr>) \<and>
   handleCMD lab_env \<lparr>cmd = continueType, args = []\<rparr> (Some hello_record) one_route =
     handleCMD lab_env \<lparr>cmd = forwardRecord, args = []\<rparr> (Some hello_record) one_route"
proof -
  have d: "defaultroute one_route = Some loopback_9000"
    "Mapping.lookup (routeTable one_route) loopback_9000 = Some \<lparr>ep = loopback_9000\<rparr>"
    by (simp_all add: one_route_def)
  have c: "cmd \<lparr>cmd = continueType, args = []\<rparr> = continueType" by simp
  have u: "\<lparr>cmd = continueType, args = []\<rparr>\<lparr>cmd := forwardRecord\<rparr> = \<lparr>cmd = forwardRecord, args = []\<rparr>"
    by simp
  have w: "write_ok lab_env (ep \<lparr>ep = loopback_9000\<rparr>)" by simp
  have e: "ep \<lparr>ep = loopback_9000\<rparr> = loopback_9000" by simp
  from continue_forwards_pending [OF c, of lab_env one_route loopback_9000
      "\<lparr>ep = loopback_9000\<rparr>" hello_record "Some hello_record" True None
      "one_route\<lparr>wire := wire one_route @ [Written loopback_9000 (toBytes hello_record)]\<rparr>"] d w
  show ?thesis unfolding u e by blast
qed

text \<open>
  C5 as stated fails when a record is pending: with one route, which is the default, the
  continue command writes the ten bytes of the pending record to that route.
\<close>

theorem continue_writes_counterexample:
  "handleCMD lab_env \<lparr>cmd = continueType, args = []\<rparr> (Some hello_record) one_route =
     Returns (True, None, one_route\<lparr>wire := [Dialed loopback_9000,
        Written loopback_9000 [0x17, 3, 3, 0, 5, 0x68, 0x65, 0x6c, 0x6c, 0x6f]]\<rparr>) \<and>
   wire (one_route\<lparr>wire := [Dialed loopback_9000,
        Written loopback_9000 [0x17, 3, 3, 0, 5, 0x68, 0x65, 0x6c, 0x6c, 0x6f]]\<rparr>) \<noteq> wire one_route"
  by (simp add: handleCMD_def forward_body_def RouteEntry_Write_def one_route_def hello_record_def toBytes_def PutUint16_def)

text \<open>
  With a record pending and no default route set, the continue command reaches the read
  of \<^verbatim>\<open>*defaultroute\<close> in the forward case and panics there, as the forward command does.
\<close>

lemma continue_pending_without_default:
  "cmd c = continueType \<Longrightarrow> defaultroute s = None \<Longrightarrow>
   handleCMD en c (Some r) s = Panics NilDereference"
  by (simp add: handleCMD_def forward_body_def)

text \<open>
  C6 (evaluation of the code). On a fresh start no default route is set. The forward
  command reads \<^verbatim>\<open>*defaultroute\<close> before it tests the record, so with no record pending
  it panics on the nil pointer instead of returning the no-record error.
\<close>

theorem forward_without_default_panics:
  "handleCMD en \<lparr>cmd = forwardRecord, args = []\<rparr> None initial_globals = Panics NilDereference"
  by (simp add: handleCMD_def forward_body_def initial_globals_def)

lemma forward_no_record_with_default:
  "cmd c = forwardRecord \<Longrightarrow> defaultroute s = Some d \<Longrightarrow>
   handleCMD en c None s = Returns (False, Some NoRecord, s)"
  by (simp add: handleCMD_def forward_body_def)

text \<open>
  The remove case of the handler, for an end point that parses: an end point that is
  not a key of the table gives the no-such-route error and changes nothing; otherwise,
  when the close goes through, the entry is closed and deleted, and the default end
  point is not touched.
\<close>

lemma remove_route_handler:
  assumes "cmd c = removeRoute" "args c = [sip, sport]" "parseEP en sip sport = Returns (Inr e)"
  shows "handleCMD en c rcd s =
     (case Mapping.lookup (routeTable s) e of
        None \<Rightarrow> Returns (False, Some NoSuchRoute, s)
      | Some re \<Rightarrow>
          if close_ok en (ep re)
          then Returns (False, None,
            s\<lparr>wire := wire s @ [CloseRequested (ep re)], routeTable := Mapping.delete e (routeTable s)\<rparr>)
          else Blocks)"
  using assms by (simp add: handleCMD_def RouteEntry_Close_def split: option.splits)

text \<open>
  C7 (as amended). From globals whose default end point is in the route table, a
  returning add or set-default command leaves it so. A returning remove command leaves
  it so unless it succeeded in removing the end point that is the current default; then
  the default stays and no longer names a key of the table.
\<close>

theorem default_in_table_preserved:
  assumes "default_in_table s" and "handleCMD en c rcd s = Returns (bk, err, s')"
  shows "(cmd c = addRoute \<or> cmd c = setDefaultRoute \<longrightarrow> default_in_table s') \<and>
         (cmd c = removeRoute \<longrightarrow>
            (default_in_table s' \<longleftrightarrow>
               \<not> (err = None \<and> (\<exists>d. defaultroute s = Some d \<and>
                      parseEP en (args c ! 0) (args c ! 1) = Returns (Inr d)))))"
proof (cases "cmd c")
  case addRoute
  with assms show ?thesis
    by (auto simp add: handleCMD_def default_in_table_def RouteEntry_Run_def Let_def Mapping.lookup_update'
        split: if_splits outcome.splits sum.splits option.splits)
next
  case setDefaultRoute
  with assms show ?thesis
    by (auto simp add: handleCMD_def default_in_table_def
        split: if_splits outcome.splits sum.splits option.splits)
next
  case removeRoute
  with assms show ?thesis
    by (auto simp add: handleCMD_def default_in_table_def RouteEntry_Close_def Let_def
        split: if_splits outcome.splits sum.splits option.splits)
qed simp_all

theorem default_in_table_preserved_witness:
  "default_in_table initial_globals \<and>
   handleCMD lab_env \<lparr>cmd = addRoute, args = [''127.0.0.1'', ''9000'']\<rparr> None initial_globals
     = Returns (False, None, one_route) \<and>
   default_in_table one_route \<and>
   default_in_table two_routes \<and>
   handleCMD lab_env \<lparr>cmd = removeRoute, args = [''127.0.0.1'', ''9001'']\<rparr> None two_routes
     = Returns (False, None, one_route\<lparr>wire := wire two_routes @ [CloseRequested loopback_9001]\<rparr>) \<and>
   default_in_table (one_route\<lparr>wire := wire two_routes @ [CloseRequested loopback_9001]\<rparr>)"
proof -
  have i: "default_in_table initial_globals" by (simp add: default_in_table_def initial_globals_def)
  have ne: "loopback_9000 \<noteq> loopback_9001" by (simp add: loopback_9000_def loopback_9001_def)
  have t: "default_in_table two_routes"
    using ne by (simp add: default_in_table_def two_routes_def)
  have a: "Atoi ''9001'' = Some 9001" by (simp add: Atoi_def isDigit_def digitsValue_def)
  have p: "parseEP lab_env ''127.0.0.1'' ''9001'' = Returns (Inr loopback_9001)"
    by (simp add: parseEP_def lab_env_def a NewEndPoint_def To4_def replicate_numeral loopback_9001_def)
  have da: "Mapping.delete loopback_9001 (Mapping.update loopback_9000 \<lparr>ep = loopback_9000\<rparr> Mapping.empty)
      = Mapping.update loopback_9000 \<lparr>ep = loopback_9000\<rparr> Mapping.empty"
    using ne by (intro delete_absent) simp
  have r: "handleCMD lab_env \<lparr>cmd = removeRoute, args = [''127.0.0.1'', ''9001'']\<rparr> None two_routes
     = Returns (False, None, one_route\<lparr>wire := wire two_routes @ [CloseRequested loopback_9001]\<rparr>)"
    by (simp add: handleCMD_def p RouteEntry_Close_def two_routes_def one_route_def
        Mapping.delete_update da)
  have d: "defaultroute two_routes = Some loopback_9000" by (simp add: two_routes_def)
  from default_in_table_preserved [OF i add_first_eval] default_in_table_preserved [OF t r]
    i add_first_eval t r p d ne
  show ?thesis by simp
qed

text \<open>
  C7 as stated fails for the remove command: removing the only route, which is the
  default, empties the table and leaves the default end point set.
\<close>

theorem remove_default_counterexample:
  "default_in_table one_route \<and>
   handleCMD lab_env \<lparr>cmd = removeRoute, args = [''127.0.0.1'', ''9000'']\<rparr> None one_route
     = Returns (False, None, one_route\<lparr>routeTable := Mapping.empty,
          wire := [Dialed loopback_9000, CloseRequested loopback_9000]\<rparr>) \<and>
   \<not> default_in_table (one_route\<lparr>routeTable := Mapping.empty,
          wire := [Dialed loopback_9000, CloseRequested loopback_9000]\<rparr>)"
  by (simp add: handleCMD_def parseEP_9000 RouteEntry_Close_def default_in_table_def one_route_def Mapping.delete_update)

text \<open>
  C8. An add command whose end point parses and whose dial succeeds returns with the
  route in the table; the default end point becomes the new end point when the table was
  empty, and is unchanged when it was not. The table is not empty afterwards, so a
  second add leaves the default alone.
\<close>

theorem add_route_default:
  assumes "cmd c = addRoute" "args c = [sip, sport]"
    and "parseEP en sip sport = Returns (Inr e)" "dial_ok en e"
  shows "\<exists>s'. handleCMD en c rcd s = Returns (False, None, s') \<and>
           Mapping.lookup (routeTable s') e = Some (NewRoutingEntry e) \<and>
           (Mapping.is_empty (routeTable s) \<longrightarrow> defaultroute s' = Some e) \<and>
           (\<not> Mapping.is_empty (routeTable s) \<longrightarrow> defaultroute s' = defaultroute s) \<and>
           \<not> Mapping.is_empty (routeTable s')"
  using assms by (simp add: handleCMD_def RouteEntry_Run_def NewRoutingEntry_def Let_def)

theorem add_route_default_witness:
  "(\<exists>s'. handleCMD lab_env \<lparr>cmd = addRoute, args = [''127.0.0.1'', ''9000'']\<rparr> None initial_globals
            = Returns (False, None, s') \<and> defaultroute s' = Some loopback_9000) \<and>
   (\<exists>s'. handleCMD lab_env \<lparr>cmd = addRoute, args = [''127.0.0.1'', ''9001'']\<rparr> None one_route
            = Returns (False, None, s') \<and> defaultroute s' = Some loopback_9000 \<and>
              Mapping.lookup (routeTable s') loopback_9001 \<noteq> None)"
proof -
  have a: "Atoi ''9001'' = Some 9001" by (simp add: Atoi_def isDigit_def digitsValue_def)
  have p: "parseEP lab_env ''127.0.0.1'' ''9001'' = Returns (Inr loopback_9001)"
    by (simp add: parseEP_def lab_env_def a NewEndPoint_def To4_def replicate_numeral loopback_9001_def)
  have e: "Mapping.is_empty (routeTable initial_globals)" by (simp add: initial_globals_def)
  have n: "\<not> Mapping.is_empty (routeTable one_route)" "defaultroute one_route = Some loopback_9000"
    by (simp_all add: one_route_def)
  have 1: "\<exists>s'. handleCMD lab_env \<lparr>cmd = addRoute, args = [''127.0.0.1'', ''9000'']\<rparr> None initial_globals
            = Returns (False, None, s') \<and> defaultroute s' = Some loopback_9000"
    using add_route_default [of "\<lparr>cmd = addRoute, args = [''127.0.0.1'', ''9000'']\<rparr>"
        "''127.0.0.1''" "''9000''" lab_env loopback_9000 None initial_globals] parseEP_9000 e
    by auto
  have 2: "\<exists>s'. handleCMD lab_env \<lparr>cmd = addRoute, args = [''127.0.0.1'', ''9001'']\<rparr> None one_route
            = Returns (False, None, s') \<and> defaultroute s' = Some loopback_9000 \<and>
              Mapping.lookup (routeTable s') loopback_9001 \<noteq> None"
    using add_route_default [of "\<lparr>cmd = addRoute, args = [''127.0.0.1'', ''9001'']\<rparr>"
        "''127.0.0.1''" "''9001''" lab_env "loopback_9001" None one_route] p n
    by auto
  from 1 2 show ?thesis by simp
qed

text \<open>
  C9. The break points start as the set holding \<^verbatim>\<open>Application\<close> (0x17) alone. A break
  command whose argument parses toggles the membership of its record type and of no
  other; given twice in a row it restores the set of break points, and the globals as a
  whole when the type was not stored with the value false (the program stores only true).
\<close>

theorem break_twice_restores:
  assumes "cmd c = breakType" "args c = [a]" "Atoi a = Some n"
  shows "Mapping.keys (breakpoints initial_globals) = {Application} \<and>
    (\<exists>s1 s2. handleCMD en c rcd s = Returns (False, None, s1) \<and>
       handleCMD en c rcd s1 = Returns (False, None, s2) \<and>
       (word_of_int n \<in> Mapping.keys (breakpoints s1)) = (word_of_int n \<notin> Mapping.keys (breakpoints s)) \<and>
       Mapping.keys (breakpoints s1) - {word_of_int n} = Mapping.keys (breakpoints s) - {word_of_int n} \<and>
       Mapping.keys (breakpoints s2) = Mapping.keys (breakpoints s) \<and>
       (Mapping.lookup (breakpoints s) (word_of_int n) \<noteq> Some False \<longrightarrow> s2 = s))"
proof -
  define t where "t = (word_of_int n :: byte)"
  have init: "Mapping.keys (breakpoints initial_globals) = {Application}"
    by (simp add: initial_globals_def Application_def)
  have step: "handleCMD en c rcd' s' =
      (if Mapping.lookup (breakpoints s') t \<noteq> None
       then Returns (False, None, s'\<lparr>breakpoints := Mapping.delete t (breakpoints s')\<rparr>)
       else Returns (False, None, s'\<lparr>breakpoints := Mapping.update t True (breakpoints s')\<rparr>))"
    for rcd' s'
    using assms by (simp add: handleCMD_def Let_def t_def)
  show ?thesis
  proof (cases "Mapping.lookup (breakpoints s) t")
    case None
    define s1 where "s1 = s\<lparr>breakpoints := Mapping.update t True (breakpoints s)\<rparr>"
    have 1: "handleCMD en c rcd s = Returns (False, None, s1)"
      using None by (simp add: step s1_def)
    have 2: "handleCMD en c rcd s1 = Returns (False, None, s)"
      using None by (simp add: step s1_def Mapping.delete_update delete_absent)
    have 3: "t \<notin> Mapping.keys (breakpoints s)" using None by (simp add: in_keys_lookup)
    have 4: "t \<in> Mapping.keys (breakpoints s1)" by (simp add: s1_def)
    have 5: "Mapping.keys (breakpoints s1) - {t} = Mapping.keys (breakpoints s) - {t}"
      by (simp add: s1_def)
    from 1 2 3 4 5 init show ?thesis unfolding t_def by blast
  next
    case (Some v)
    define s1 where "s1 = s\<lparr>breakpoints := Mapping.delete t (breakpoints s)\<rparr>"
    define s2 where "s2 = s\<lparr>breakpoints := Mapping.update t True (breakpoints s)\<rparr>"
    have 1: "handleCMD en c rcd s = Returns (False, None, s1)"
      using Some by (simp add: step s1_def)
    have 2: "handleCMD en c rcd s1 = Returns (False, None, s2)"
      by (simp add: step s1_def s2_def)
    have 3: "t \<in> Mapping.keys (breakpoints s)" using Some by (simp add: in_keys_lookup)
    have 4: "t \<notin> Mapping.keys (breakpoints s1)" by (simp add: s1_def)
    have 5: "Mapping.keys (breakpoints s1) - {t} = Mapping.keys (breakpoints s) - {t}"
      by (simp add: s1_def)
    have 6: "Mapping.keys (breakpoints s2) = Mapping.keys (breakpoints s)"
      using 3 by (auto simp add: s2_def)
    have 7: "Mapping.lookup (breakpoints s) t \<noteq> Some False \<longrightarrow> s2 = s"
      using Some by (auto simp add: s2_def update_present)
    from 1 2 3 4 5 6 7 init show ?thesis unfolding t_def by blast
  qed
qed

theorem break_twice_restores_witness:
  "\<exists>s1. handleCMD lab_env \<lparr>cmd = breakType, args = [''23'']\<rparr> None initial_globals = Returns (False, None, s1) \<and>
      handleCMD lab_env \<lparr>cmd = breakType, args = [''23'']\<rparr> None s1 = Returns (False, None, initial_globals) \<and>
      Application \<notin> Mapping.keys (breakpoints s1)"
proof -
  have a: "Atoi ''23'' = Some 23" by (simp add: Atoi_def isDigit_def digitsValue_def)
  have l: "Mapping.lookup (breakpoints initial_globals) (word_of_int 23) \<noteq> Some False"
    by (simp add: initial_globals_def)
  have k: "(word_of_int 23 :: byte) \<in> Mapping.keys (breakpoints initial_globals)"
    by (simp add: initial_globals_def)
  from break_twice_restores [of "\<lparr>cmd = breakType, args = [''23'']\<rparr>" "''23''" 23 lab_env None initial_globals] a l k
  show ?thesis by (auto simp add: Application_def)
qed

end
